theory Spec2Isabelle
  imports Main "HOL-Library.Word"
begin

section \<open>JavaScript values, the heap and computations\<close>

text \<open>
  The library is TypeScript: its functions take values of unknown shape, compare objects
  by identity, throw and catch. The embedding therefore has
  \<^item> a type of JavaScript values: the primitives and references to objects;
  \<^item> a heap, the list of the objects allocated so far, an address being an index into
    it, so that "the same instance" is "the same address" and "a new object" is an
    address the heap did not have;
  \<^item> computations that take the heap and give an outcome (a returned value or a thrown
    one) with the heap afterwards.
  A function object is given by what a call of it does, and only the functions that
  return or throw a fixed value are modelled, which is enough for a \<open>toJSON\<close> method.
  Accessor properties, proxies and the host's wrapper and date objects are outside the
  model: no statement below is about them, except through what \<open>JSON.stringify\<close> or a
  callback does. Strings are lists of 8-bit code units.
\<close>

type_synonym addr = nat

text \<open>
  A number is NaN, an infinity, or an integer from \<open>-2^53\<close> to \<open>2^53 - 1\<close>, held as a
  signed word of 54 bits: each of these is a double, and the host prints it as its
  decimal numeral. The zero is both zeros of the host, which print alike and are both
  falsy. The other finite doubles (with a fractional part, or of a larger magnitude,
  which the host prints with rounded digits or an exponent) are not modelled.
\<close>

datatype jsnum = NaN | Infinity | NegInfinity | Integer "54 word"

datatype jsval =
    Undefined
  | Null
  | Bool bool
  | Num jsnum
  | Str string
  | BigInt int
  | Symbol string
  | Ref addr

text \<open>The outcome of a computation: a returned value or a thrown one.\<close>

datatype 'a outcome = Returns 'a | Throws jsval

text \<open>
  Objects. A plain object holds its own enumerable string-keyed properties in insertion
  order; an array holds its elements; an \<open>Error\<close> instance (of \<open>Error\<close> or a subclass)
  holds its message, which is not enumerable, and the enumerable properties a program
  has added to it, in insertion order; a \<open>Result\<close> instance holds its two public fields
  \<open>value\<close> and \<open>error\<close>; a function is a callable object, which holds the outcome of
  calling it. A symbol is a primitive, given by its description.
\<close>

datatype obj =
    PlainObj "(string \<times> jsval) list"
  | ArrayObj "jsval list"
  | ErrorObj string "(string \<times> jsval) list"
  | ResultObj jsval jsval
  | FunctionObj "jsval outcome"

type_synonym heap = "obj list"

definition lookup :: "heap \<Rightarrow> addr \<Rightarrow> obj option" where
  "lookup h a = (if a < length h then Some (h ! a) else None)"

type_synonym 'a js = "heap \<Rightarrow> 'a outcome \<times> heap"

definition js_return :: "'a \<Rightarrow> 'a js" where
  "js_return v h = (Returns v, h)"

definition js_throw :: "jsval \<Rightarrow> 'a js" where
  "js_throw e h = (Throws e, h)"

definition js_bind :: "'a js \<Rightarrow> ('a \<Rightarrow> 'b js) \<Rightarrow> 'b js" where
  "js_bind m k h = (case m h of (Returns v, h') \<Rightarrow> k v h' | (Throws e, h') \<Rightarrow> (Throws e, h'))"

text \<open>\<open>try { body } catch (e) { handler }\<close>\<close>

definition try_catch :: "'a js \<Rightarrow> (jsval \<Rightarrow> 'a js) \<Rightarrow> 'a js" where
  "try_catch body handler h =
     (case body h of (Returns v, h') \<Rightarrow> (Returns v, h') | (Throws e, h') \<Rightarrow> handler e h')"

text \<open>
  \<open>new Error(message)\<close>: a new object at the first free address. An absent message
  gives the empty message.
\<close>

definition new_Error :: "string option \<Rightarrow> jsval js" where
  "new_Error message h =
     (Returns (Ref (length h)),
      h @ [ErrorObj (case message of None \<Rightarrow> [] | Some m \<Rightarrow> m) []])"

text \<open>\<open>e instanceof Error\<close>, \<open>e instanceof Result\<close> and the reads \<open>e.message\<close>,
  \<open>this.value\<close>, \<open>this.error\<close>.\<close>

definition instanceof_Error :: "heap \<Rightarrow> jsval \<Rightarrow> bool" where
  "instanceof_Error h e =
     (case e of Ref a \<Rightarrow> (case lookup h a of Some (ErrorObj m ps) \<Rightarrow> True | _ \<Rightarrow> False)
      | _ \<Rightarrow> False)"

definition instanceof_Result :: "heap \<Rightarrow> jsval \<Rightarrow> bool" where
  "instanceof_Result h e =
     (case e of Ref a \<Rightarrow> (case lookup h a of Some (ResultObj v er) \<Rightarrow> True | _ \<Rightarrow> False)
      | _ \<Rightarrow> False)"

definition message_of :: "heap \<Rightarrow> jsval \<Rightarrow> string" where
  "message_of h e =
     (case e of Ref a \<Rightarrow> (case lookup h a of Some (ErrorObj m ps) \<Rightarrow> m | _ \<Rightarrow> [])
      | _ \<Rightarrow> [])"

text \<open>Truthiness, as \<open>&&\<close> and \<open>? :\<close> test it.\<close>

fun truthy :: "jsval \<Rightarrow> bool" where
  "truthy Undefined = False"
| "truthy Null = False"
| "truthy (Bool b) = b"
| "truthy (Num NaN) = False"
| "truthy (Num (Integer i)) = (i \<noteq> 0)"
| "truthy (Num n) = True"
| "truthy (Str s) = (s \<noteq> [])"
| "truthy (BigInt i) = (i \<noteq> 0)"
| "truthy (Symbol d) = True"
| "truthy (Ref a) = True"

section \<open>The host's \<open>JSON.stringify\<close>\<close>

text \<open>
  \<open>getErrorMessage\<close> ends in the host's \<open>JSON.stringify\<close>, which is modelled after
  ECMA-262 (SerializeJSONProperty, SerializeJSONObject, SerializeJSONArray,
  QuoteJSONString, OrdinaryOwnPropertyKeys), with neither replacer nor indentation.
\<close>

definition digit_char :: "nat \<Rightarrow> char" where
  "digit_char d = ''0123456789abcdef'' ! d"

fun digits :: "nat \<Rightarrow> string" where
  "digits n = (if n < 10 then [digit_char n] else digits (n div 10) @ [digit_char (n mod 10)])"

declare digits.simps [simp del]

definition NumberToString :: "jsnum \<Rightarrow> string" where
  "NumberToString n =
     (case n of
        NaN \<Rightarrow> ''NaN''
      | Infinity \<Rightarrow> ''Infinity''
      | NegInfinity \<Rightarrow> ''-Infinity''
      | Integer w \<Rightarrow>
          (if sint w < 0 then CHR ''-'' # digits (nat (- sint w)) else digits (nat (sint w))))"

definition isFinite :: "jsnum \<Rightarrow> bool" where
  "isFinite n = (case n of Integer i \<Rightarrow> True | _ \<Rightarrow> False)"

text \<open>QuoteJSONString: the two-character escapes, \<open>\u00xx\<close> for the other control
  characters, every other code unit as it is.\<close>

definition quote_char :: "char \<Rightarrow> string" where
  "quote_char c =
     (if c = CHR 0x08 then [CHR 0x5C, CHR ''b'']
      else if c = CHR 0x09 then [CHR 0x5C, CHR ''t'']
      else if c = CHR 0x0A then [CHR 0x5C, CHR ''n'']
      else if c = CHR 0x0C then [CHR 0x5C, CHR ''f'']
      else if c = CHR 0x0D then [CHR 0x5C, CHR ''r'']
      else if c = CHR 0x22 then [CHR 0x5C, CHR 0x22]
      else if c = CHR 0x5C then [CHR 0x5C, CHR 0x5C]
      else if (of_char c :: nat) < 32
        then [CHR 0x5C, CHR ''u'', CHR ''0'', CHR ''0'',
              digit_char (of_char c div 16), digit_char (of_char c mod 16)]
      else [c])"

definition QuoteJSONString :: "string \<Rightarrow> string" where
  "QuoteJSONString s = CHR 0x22 # concat (map quote_char s) @ [CHR 0x22]"

text \<open>
  The order in which an object's own properties are enumerated: the keys that are array
  indices (canonical decimal numerals below \<open>2^32 - 1\<close>) first, in ascending numeric
  order, then the other keys in insertion order.
\<close>

definition digit_value :: "char \<Rightarrow> nat option" where
  "digit_value c = map_of (zip ''0123456789'' [0, 1, 2, 3, 4, 5, 6, 7, 8, 9]) c"

fun decimal_value :: "nat \<Rightarrow> string \<Rightarrow> nat option" where
  "decimal_value acc [] = Some acc"
| "decimal_value acc (c # cs) =
     (case digit_value c of None \<Rightarrow> None | Some d \<Rightarrow> decimal_value (10 * acc + d) cs)"

definition array_index :: "string \<Rightarrow> nat option" where
  "array_index s =
     (if s = [] then None
      else case decimal_value 0 s of
        None \<Rightarrow> None
      | Some n \<Rightarrow> if digits n = s \<and> n < 2 ^ 32 - 1 then Some n else None)"

definition index_properties :: "(string \<times> jsval) list \<Rightarrow> (nat \<times> string \<times> jsval) list" where
  "index_properties ps =
     List.map_filter (\<lambda>(k, v). map_option (\<lambda>i. (i, k, v)) (array_index k)) ps"

definition own_properties :: "(string \<times> jsval) list \<Rightarrow> (string \<times> jsval) list" where
  "own_properties ps =
     map snd (sort_key fst (index_properties ps)) @
     filter (\<lambda>(k, v). array_index k = None) ps"

text \<open>EnumerableOwnProperties of an object that is not an array.\<close>

definition EnumerableOwnProperties :: "obj \<Rightarrow> (string \<times> jsval) list" where
  "EnumerableOwnProperties ob =
     (case ob of
        PlainObj ps \<Rightarrow> own_properties ps
      | ErrorObj m ps \<Rightarrow> own_properties ps
      | ResultObj v e \<Rightarrow> [(''value'', v), (''error'', e)]
      | ArrayObj xs \<Rightarrow> []
      | FunctionObj r \<Rightarrow> [])"

fun join :: "string list \<Rightarrow> string" where
  "join [] = []"
| "join [s] = s"
| "join (s # t # ss) = s @ CHR '','' # join (t # ss)"

text \<open>
  \<open>IsCallable\<close>, and the properties of an object among which \<open>toJSON\<close> is looked for:
  its own ones (no object of the model inherits a property of that name).
\<close>

definition IsCallable :: "obj \<Rightarrow> bool" where
  "IsCallable ob = (case ob of FunctionObj r \<Rightarrow> True | _ \<Rightarrow> False)"

definition named_properties :: "obj \<Rightarrow> (string \<times> jsval) list" where
  "named_properties ob =
     (case ob of
        PlainObj ps \<Rightarrow> ps
      | ErrorObj m ps \<Rightarrow> ps
      | ResultObj v e \<Rightarrow> [(''value'', v), (''error'', e)]
      | ArrayObj xs \<Rightarrow> []
      | FunctionObj r \<Rightarrow> [])"

text \<open>
  The \<open>toJSON\<close> step of SerializeJSONProperty: when the value is an object whose
  \<open>toJSON\<close> property is a function, that function is called, and \<open>toJSON_of\<close> is the
  outcome of the call; \<open>None\<close> when there is no such function.
\<close>

definition toJSON_of :: "heap \<Rightarrow> jsval \<Rightarrow> jsval outcome option" where
  "toJSON_of h v =
     (case v of
        Ref a \<Rightarrow>
          (case lookup h a of
             None \<Rightarrow> None
           | Some ob \<Rightarrow>
               (case map_of (named_properties ob) ''toJSON'' of
                  Some (Ref f) \<Rightarrow>
                    (case lookup h f of Some (FunctionObj r) \<Rightarrow> Some r | _ \<Rightarrow> None)
                | _ \<Rightarrow> None))
      | _ \<Rightarrow> None)"

text \<open>
  The ways in which the serialisation fails: the two TypeErrors of the host, and the
  value that a \<open>toJSON\<close> method threw.
\<close>

datatype ser_error = CircularStructure | BigIntValue | Thrown jsval

text \<open>
  \<open>ser h stack v\<close> is SerializeJSONProperty for the value \<open>v\<close>: the \<open>toJSON\<close> step, then
  \<open>ser_value\<close> on the value it gives. \<open>Inr None\<close> is the result \<open>undefined\<close>, which a
  function and a symbol have. \<open>stack\<close> holds the objects being serialised: meeting one
  of them again is the circular structure. An address outside the heap does not occur
  in a program; the model treats it as \<open>undefined\<close>.
\<close>

function ser :: "heap \<Rightarrow> addr list \<Rightarrow> jsval \<Rightarrow> ser_error + string option"
  and ser_value :: "heap \<Rightarrow> addr list \<Rightarrow> jsval \<Rightarrow> ser_error + string option"
  and ser_members :: "heap \<Rightarrow> addr list \<Rightarrow> (string \<times> jsval) list \<Rightarrow> ser_error + string list"
  and ser_elements :: "heap \<Rightarrow> addr list \<Rightarrow> jsval list \<Rightarrow> ser_error + string list"
where
  "ser h stack v =
     (case toJSON_of h v of
        None \<Rightarrow> ser_value h stack v
      | Some (Returns w) \<Rightarrow> ser_value h stack w
      | Some (Throws x) \<Rightarrow> Inl (Thrown x))"
| "ser_value h stack Undefined = Inr None"
| "ser_value h stack Null = Inr (Some ''null'')"
| "ser_value h stack (Bool b) = Inr (Some (if b then ''true'' else ''false''))"
| "ser_value h stack (Str s) = Inr (Some (QuoteJSONString s))"
| "ser_value h stack (Num n) = Inr (Some (if isFinite n then NumberToString n else ''null''))"
| "ser_value h stack (BigInt i) = Inl BigIntValue"
| "ser_value h stack (Symbol d) = Inr None"
| "ser_value h stack (Ref a) =
     (case lookup h a of
        None \<Rightarrow> Inr None
      | Some ob \<Rightarrow>
          if IsCallable ob then Inr None
          else if a \<in> set stack then Inl CircularStructure
          else (case ob of
              ArrayObj xs \<Rightarrow>
                (case ser_elements h (a # stack) xs of
                   Inl e \<Rightarrow> Inl e
                 | Inr parts \<Rightarrow> Inr (Some (CHR ''['' # join parts @ '']'')))
            | _ \<Rightarrow>
                (case ser_members h (a # stack) (EnumerableOwnProperties ob) of
                   Inl e \<Rightarrow> Inl e
                 | Inr parts \<Rightarrow> Inr (Some (CHR ''{'' # join parts @ ''}'')))))"
| "ser_members h stack [] = Inr []"
| "ser_members h stack ((k, v) # kvs) =
     (case ser h stack v of
        Inl e \<Rightarrow> Inl e
      | Inr None \<Rightarrow> ser_members h stack kvs
      | Inr (Some s) \<Rightarrow>
          (case ser_members h stack kvs of
             Inl e \<Rightarrow> Inl e
           | Inr parts \<Rightarrow> Inr ((QuoteJSONString k @ CHR '':'' # s) # parts)))"
| "ser_elements h stack [] = Inr []"
| "ser_elements h stack (v # vs) =
     (case ser h stack v of
        Inl e \<Rightarrow> Inl e
      | Inr r \<Rightarrow>
          (case ser_elements h stack vs of
             Inl e \<Rightarrow> Inl e
           | Inr parts \<Rightarrow> Inr ((case r of None \<Rightarrow> ''null'' | Some s \<Rightarrow> s) # parts)))"
  by pat_completeness auto
termination
proof (relation "inv_image (finite_psubset <*lex*> less_than)
    (\<lambda>x. case x of
       Inl (Inl (h, stack, v)) \<Rightarrow> ({..<length h} - set stack, 1)
     | Inl (Inr (h, stack, v)) \<Rightarrow> ({..<length h} - set stack, 0)
     | Inr (Inl (h, stack, kvs)) \<Rightarrow> ({..<length h} - set stack, 2 + length kvs)
     | Inr (Inr (h, stack, vs)) \<Rightarrow> ({..<length h} - set stack, 2 + length vs))",
    goal_cases)
  case 1
  show ?case by auto
qed (auto simp: finite_psubset_def lookup_def split: if_splits)

text \<open>
  \<open>JSON.stringify(v)\<close>: the serialisation with an empty stack. What a \<open>toJSON\<close> method
  threw is thrown on; a TypeError is a new \<open>Error\<close> instance (\<open>TypeError\<close> is a
  subclass), thrown. The message texts depend on the engine; these are the first lines
  of V8's. Where a statement below shows one of them, what it states is that the fault
  is a new \<open>Error\<close> instance; the text itself is V8's.
\<close>

definition ser_error_message :: "ser_error \<Rightarrow> string" where
  "ser_error_message err =
     (case err of
        CircularStructure \<Rightarrow> ''Converting circular structure to JSON''
      | BigIntValue \<Rightarrow> ''Do not know how to serialize a BigInt''
      | Thrown x \<Rightarrow> [])"

definition JSON_stringify :: "jsval \<Rightarrow> string option js" where
  "JSON_stringify v h =
     (case ser h [] v of
        Inr r \<Rightarrow> js_return r h
      | Inl err \<Rightarrow>
          (case err of
             Thrown x \<Rightarrow> js_throw x h
           | _ \<Rightarrow> js_bind (new_Error (Some (ser_error_message err))) js_throw h))"

section \<open>errorUtils.ts\<close>

text \<open>
  \<open>getErrorMessage\<close> is declared to return a string; its last branch returns what
  \<open>JSON.stringify\<close> returns, which is a string or \<open>undefined\<close> (\<open>None\<close>).
\<close>

definition getErrorMessage :: "jsval \<Rightarrow> string option js" where
  "getErrorMessage e h =
     (if e = Undefined then js_return (Some ''undefined'') h
      else if e = Null then js_return (Some ''null'') h
      else case e of
        Str s \<Rightarrow> js_return (Some s) h
      | _ \<Rightarrow>
          if instanceof_Error h e then js_return (Some (message_of h e)) h
          else JSON_stringify e h)"

definition convertToError :: "jsval \<Rightarrow> jsval js" where
  "convertToError e h =
     (if instanceof_Error h e then js_return e h
      else js_bind (getErrorMessage e) new_Error h)"

section \<open>result.ts\<close>

text \<open>
  The constructor: \<open>this\<close> is allocated with its two fields, then the guard
  \<open>if (value && error)\<close> throws a new \<open>Error\<close>.
\<close>

definition Result_new :: "jsval \<Rightarrow> jsval \<Rightarrow> jsval js" where
  "Result_new v e h =
     (let this = length h; h1 = h @ [ResultObj v e] in
      if truthy v \<and> truthy e
      then js_bind (new_Error (Some ''Result cannot be both success and failure'')) js_throw h1
      else js_return (Ref this) h1)"

definition success :: "jsval \<Rightarrow> jsval js" where
  "success v = Result_new v Undefined"

definition failure :: "jsval \<Rightarrow> jsval js" where
  "failure e = Result_new Undefined e"

definition value_of :: "heap \<Rightarrow> addr \<Rightarrow> jsval" where
  "value_of h this = (case lookup h this of Some (ResultObj v e) \<Rightarrow> v | _ \<Rightarrow> Undefined)"

definition error_of :: "heap \<Rightarrow> addr \<Rightarrow> jsval" where
  "error_of h this = (case lookup h this of Some (ResultObj v e) \<Rightarrow> e | _ \<Rightarrow> Undefined)"

definition get_value :: "addr \<Rightarrow> jsval js" where
  "get_value this h = js_return (value_of h this) h"

definition get_error :: "addr \<Rightarrow> jsval js" where
  "get_error this h = js_return (error_of h this) h"

definition isSuccess :: "addr \<Rightarrow> bool js" where
  "isSuccess this = js_bind (get_error this) (\<lambda>e. js_return (e = Undefined))"

definition isFailure :: "addr \<Rightarrow> bool js" where
  "isFailure this = js_bind (isSuccess this) (\<lambda>b. js_return (\<not> b))"

definition getOrThrow :: "addr \<Rightarrow> jsval js" where
  "getOrThrow this =
     js_bind (isSuccess this) (\<lambda>b.
       if b then get_value this else js_bind (get_error this) js_throw)"

definition getOrDefault :: "addr \<Rightarrow> jsval \<Rightarrow> jsval js" where
  "getOrDefault this defaultValue =
     js_bind (isSuccess this) (\<lambda>b.
       if b then get_value this else js_return defaultValue)"

definition getOrElse :: "addr \<Rightarrow> (jsval \<Rightarrow> jsval js) \<Rightarrow> jsval js" where
  "getOrElse this transfer =
     js_bind (isSuccess this) (\<lambda>b.
       if b then get_value this else js_bind (get_error this) transfer)"

definition onSuccess :: "addr \<Rightarrow> (jsval \<Rightarrow> jsval js) \<Rightarrow> jsval js" where
  "onSuccess this f =
     js_bind (isSuccess this) (\<lambda>b.
       if b then js_bind (js_bind (get_value this) f) (\<lambda>u. js_return (Ref this))
       else js_return (Ref this))"

definition onFailure :: "addr \<Rightarrow> (jsval \<Rightarrow> jsval js) \<Rightarrow> jsval js" where
  "onFailure this f =
     js_bind (isFailure this) (\<lambda>b.
       if b then js_bind (js_bind (get_error this) f) (\<lambda>u. js_return (Ref this))
       else js_return (Ref this))"

definition runCatching :: "(jsval list \<Rightarrow> jsval js) \<Rightarrow> jsval list \<Rightarrow> jsval js" where
  "runCatching f args =
     try_catch
       (js_bind (f args) (\<lambda>v h.
          if instanceof_Result h v then js_return v h else success v h))
       (\<lambda>e. js_bind (convertToError e) failure)"

definition recover :: "addr \<Rightarrow> (jsval \<Rightarrow> jsval js) \<Rightarrow> jsval js" where
  "recover this transform =
     js_bind (isFailure this) (\<lambda>b.
       if b then runCatching (\<lambda>args. js_bind (get_error this) transform) []
       else js_return (Ref this))"

subsection \<open>The asynchronous wrappers\<close>

text \<open>
  A deferred value (a promise) is modelled by its settlement: run on the heap, it is
  fulfilled with a value or rejected with a reason. \<open>await\<close> turns a rejection into a
  throw at the point of the \<open>await\<close>; an \<open>async\<close> function turns the return and the
  throw of its body into the fulfilment and the rejection of the promise it gives. A
  callback that returns a promise may also throw before it returns one. Callbacks and
  promises are taken to terminate and to settle; other tasks that run between a call
  and its settlement are not modelled.
\<close>

datatype 'a settled = Fulfilled 'a | Rejected jsval

type_synonym 'a deferred = "heap \<Rightarrow> 'a settled \<times> heap"

definition await :: "'a deferred \<Rightarrow> 'a js" where
  "await p h =
     (case p h of (Fulfilled v, h') \<Rightarrow> (Returns v, h') | (Rejected e, h') \<Rightarrow> (Throws e, h'))"

definition async :: "'a js \<Rightarrow> 'a deferred" where
  "async body h =
     (case body h of (Returns v, h') \<Rightarrow> (Fulfilled v, h') | (Throws e, h') \<Rightarrow> (Rejected e, h'))"

definition runAsyncCatching ::
    "(jsval list \<Rightarrow> jsval deferred js) \<Rightarrow> jsval list \<Rightarrow> jsval deferred" where
  "runAsyncCatching f args =
     async
       (try_catch
          (js_bind (js_bind (f args) await) (\<lambda>v h.
             if instanceof_Result h v then js_return v h else success v h))
          (\<lambda>e. js_bind (convertToError e) failure))"

definition recoverAsync :: "addr \<Rightarrow> (jsval \<Rightarrow> jsval deferred js) \<Rightarrow> jsval deferred" where
  "recoverAsync this transform =
     async
       (js_bind (isFailure this) (\<lambda>b.
          if b then await (runAsyncCatching (\<lambda>args. js_bind (get_error this) transform) [])
          else js_return (Ref this)))"

section \<open>DynamoDB.ts\<close>

text \<open>
  The document client is the external service: \<open>send\<close> is a parameter, a function of
  the command and the client's state that settles with an output or a rejection. The
  state the wrapper runs on is the client's together with the console.
\<close>

record DynamoDBItem =
  item_key :: string
  item_value :: string
  expiresAt :: "int option"

record PutOptions =
  expirationTtl :: "int option"

datatype command =
    GetCommand string string
  | PutCommand string DynamoDBItem
  | DeleteCommand string string

record command_output =
  Item :: "DynamoDBItem option"

type_synonym 'c client = "command \<Rightarrow> 'c \<Rightarrow> command_output settled \<times> 'c"

type_synonym console = "(string \<times> jsval) list"

text \<open>\<open>get\<close> resolves to a string or to \<open>null\<close> (\<open>None\<close>).\<close>

definition DynamoDB_get ::
    "'c client \<Rightarrow> string \<Rightarrow> string \<Rightarrow> 'c \<times> console \<Rightarrow> string option settled \<times> ('c \<times> console)" where
  "DynamoDB_get send tableName k s =
     (case send (GetCommand tableName k) (fst s) of
        (Fulfilled result, c') \<Rightarrow>
          (Fulfilled
             (case Item result of
                None \<Rightarrow> None
              | Some item \<Rightarrow> if item_value item \<noteq> [] then Some (item_value item) else None),
           (c', snd s))
      | (Rejected error, c') \<Rightarrow>
          (Rejected error, (c', snd s @ [(''Error in DynamoDB get:'', error)])))"

text \<open>\<open>now\<close> is \<open>Date.now()\<close>, in milliseconds. The time and the time to live are
  integers, in the range where the host's sum of two numbers is the exact one.\<close>

definition DynamoDB_put ::
    "'c client \<Rightarrow> string \<Rightarrow> int \<Rightarrow> string \<Rightarrow> string \<Rightarrow> PutOptions option \<Rightarrow> 'c \<times> console
       \<Rightarrow> unit settled \<times> ('c \<times> console)" where
  "DynamoDB_put send tableName now k v options s =
     (let item = \<lparr>item_key = k, item_value = v,
                  expiresAt =
                    (case options of
                       None \<Rightarrow> None
                     | Some opts \<Rightarrow>
                         (case expirationTtl opts of
                            None \<Rightarrow> None
                          | Some ttl \<Rightarrow> if ttl \<noteq> 0 then Some (now div 1000 + ttl) else None))\<rparr>
      in case send (PutCommand tableName item) (fst s) of
        (Fulfilled result, c') \<Rightarrow> (Fulfilled (), (c', snd s))
      | (Rejected error, c') \<Rightarrow>
          (Rejected error, (c', snd s @ [(''Error in DynamoDB put:'', error)])))"

definition DynamoDB_delete ::
    "'c client \<Rightarrow> string \<Rightarrow> string \<Rightarrow> 'c \<times> console \<Rightarrow> unit settled \<times> ('c \<times> console)" where
  "DynamoDB_delete send tableName k s =
     (case send (DeleteCommand tableName k) (fst s) of
        (Fulfilled result, c') \<Rightarrow> (Fulfilled (), (c', snd s))
      | (Rejected error, c') \<Rightarrow>
          (Rejected error, (c', snd s @ [(''Error in DynamoDB delete:'', error)])))"

text \<open>
  A table store to put in the client's place: it keeps the item a \<open>PutCommand\<close> gives
  under the table's name and the item's key, and returns it to a \<open>GetCommand\<close>.
\<close>

type_synonym tables = "string \<times> string \<Rightarrow> DynamoDBItem option"

definition table_send :: "tables client" where
  "table_send cmd t =
     (case cmd of
        GetCommand tableName k \<Rightarrow> (Fulfilled \<lparr>Item = t (tableName, k)\<rparr>, t)
      | PutCommand tableName item \<Rightarrow>
          (Fulfilled \<lparr>Item = None\<rparr>, t((tableName, item_key item) \<mapsto> item))
      | DeleteCommand tableName k \<Rightarrow>
          (Fulfilled \<lparr>Item = None\<rparr>, t((tableName, k) := None)))"

section \<open>The vocabulary of the claims\<close>

text \<open>
  What the specification calls a populated field: a field that is not \<open>undefined\<close>. A
  \<open>Result\<close> carries a value XOR an error when exactly one of its two fields is populated.
  What it calls an error-like value is an instance of \<open>Error\<close>, the test the code
  makes: \<open>instanceof_Error\<close>.
\<close>

definition has_value :: "heap \<Rightarrow> addr \<Rightarrow> bool" where
  "has_value h this = (value_of h this \<noteq> Undefined)"

definition has_error :: "heap \<Rightarrow> addr \<Rightarrow> bool" where
  "has_error h this = (error_of h this \<noteq> Undefined)"

definition exclusive :: "heap \<Rightarrow> addr \<Rightarrow> bool" where
  "exclusive h this = (has_value h this \<noteq> has_error h this)"

text \<open>A computation raises, a deferred value rejects.\<close>

definition raises :: "'a js \<Rightarrow> heap \<Rightarrow> bool" where
  "raises m h = (\<exists>x h'. m h = (Throws x, h'))"

definition rejects :: "'a deferred \<Rightarrow> heap \<Rightarrow> bool" where
  "rejects p h = (\<exists>x h'. p h = (Rejected x, h'))"

text \<open>
  Callbacks to run the wrappers on: \<open>() => { throw x }\<close>, \<open>() => v\<close>,
  \<open>() => { throw new Error(m) }\<close>, and \<open>async\<close> in front of any of them. The callback
  \<open>(x) => { throw x }\<close> is \<open>js_throw\<close> itself.
\<close>

definition throwing :: "jsval \<Rightarrow> 'b \<Rightarrow> jsval js" where
  "throwing x args = js_throw x"

definition returning :: "jsval \<Rightarrow> 'b \<Rightarrow> jsval js" where
  "returning v args = js_return v"

definition throwing_new_Error :: "string \<Rightarrow> 'b \<Rightarrow> jsval js" where
  "throwing_new_Error m args = js_bind (new_Error (Some m)) js_throw"

definition async_fn :: "('b \<Rightarrow> jsval js) \<Rightarrow> 'b \<Rightarrow> jsval deferred js" where
  "async_fn body args = js_return (async (body args))"






section \<open>Basic facts\<close>

lemmas js_defs = js_return_def js_throw_def js_bind_def try_catch_def

lemma lookup_new: "lookup (h @ [ob]) (length h) = Some ob"
  by (simp add: lookup_def)

lemma lookup_old: "a < length h \<Longrightarrow> lookup (h @ hs) a = lookup h a"
  by (simp add: lookup_def nth_append)

lemma lookup_Some_less: "lookup h a = Some ob \<Longrightarrow> a < length h"
  by (simp add: lookup_def split: if_splits)

lemma instanceof_Error_append: "instanceof_Error h e \<Longrightarrow> instanceof_Error (h @ hs) e"
  by (auto simp: instanceof_Error_def lookup_def nth_append
      split: jsval.splits if_splits option.splits obj.splits)

lemma instanceof_Error_not_Undefined: "instanceof_Error h e \<Longrightarrow> e \<noteq> Undefined"
  by (auto simp: instanceof_Error_def)

lemma instanceof_Error_truthy: "instanceof_Error h e \<Longrightarrow> truthy e"
  by (auto simp: instanceof_Error_def split: jsval.splits)

lemma success_eq: "success v h = (Returns (Ref (length h)), h @ [ResultObj v Undefined])"
  by (simp add: success_def Result_new_def js_defs Let_def)

lemma failure_eq: "failure e h = (Returns (Ref (length h)), h @ [ResultObj Undefined e])"
  by (simp add: failure_def Result_new_def js_defs Let_def)

lemma Result_new_both:
  "truthy v \<Longrightarrow> truthy e \<Longrightarrow>
   Result_new v e h =
     (Throws (Ref (Suc (length h))),
      h @ [ResultObj v e, ErrorObj ''Result cannot be both success and failure'' []])"
  by (simp add: Result_new_def new_Error_def js_defs Let_def)

lemma value_of_new: "value_of (h @ [ResultObj v e]) (length h) = v"
  by (simp add: value_of_def lookup_new)

lemma error_of_new: "error_of (h @ [ResultObj v e]) (length h) = e"
  by (simp add: error_of_def lookup_new)

lemma isSuccess_eq: "isSuccess a h = (Returns (error_of h a = Undefined), h)"
  by (simp add: isSuccess_def get_error_def js_defs)

lemma isFailure_eq: "isFailure a h = (Returns (error_of h a \<noteq> Undefined), h)"
  by (simp add: isFailure_def isSuccess_eq js_defs)

lemma getOrThrow_eq:
  "getOrThrow a h =
     (if error_of h a = Undefined then (Returns (value_of h a), h)
      else (Throws (error_of h a), h))"
  by (simp add: getOrThrow_def isSuccess_eq get_value_def get_error_def js_defs)

lemma getOrDefault_eq:
  "getOrDefault a d h = (Returns (if error_of h a = Undefined then value_of h a else d), h)"
  by (simp add: getOrDefault_def isSuccess_eq get_value_def js_defs)

lemma getOrElse_eq:
  "getOrElse a t h =
     (if error_of h a = Undefined then (Returns (value_of h a), h) else t (error_of h a) h)"
  by (simp add: getOrElse_def isSuccess_eq get_value_def get_error_def js_defs)

subsection \<open>The wrappers, case by case\<close>

lemmas ser_eval = lookup_def EnumerableOwnProperties_def own_properties_def index_properties_def
  List.map_filter_simps array_index_def digit_value_def digits.simps digit_char_def
  QuoteJSONString_def quote_char_def isFinite_def NumberToString_def
  toJSON_of_def named_properties_def IsCallable_def

lemma toJSON_of_primitive [simp]:
  "toJSON_of h Undefined = None" "toJSON_of h Null = None" "toJSON_of h (Bool b) = None"
  "toJSON_of h (Num n) = None" "toJSON_of h (Str s) = None" "toJSON_of h (BigInt i) = None"
  "toJSON_of h (Symbol d) = None"
  by (simp_all add: toJSON_of_def)

lemma JSON_stringify_eq:
  "JSON_stringify v h =
     (case ser h [] v of
        Inr r \<Rightarrow> (Returns r, h)
      | Inl err \<Rightarrow>
          (case err of
             Thrown x \<Rightarrow> (Throws x, h)
           | _ \<Rightarrow> (Throws (Ref (length h)), h @ [ErrorObj (ser_error_message err) []])))"
  by (simp add: JSON_stringify_def new_Error_def js_defs split: sum.splits ser_error.splits)

lemma convertToError_eq:
  "convertToError e h =
     (if instanceof_Error h e then (Returns e, h)
      else case getErrorMessage e h of
        (Returns m, h') \<Rightarrow>
          (Returns (Ref (length h')), h' @ [ErrorObj (case m of None \<Rightarrow> [] | Some s \<Rightarrow> s) []])
      | (Throws x, h') \<Rightarrow> (Throws x, h'))"
  by (simp add: convertToError_def new_Error_def js_defs split: prod.splits outcome.splits)

lemma runCatching_eq:
  "runCatching f args h =
     (case f args h of
        (Returns v, h') \<Rightarrow> if instanceof_Result h' v then (Returns v, h') else success v h'
      | (Throws e, h') \<Rightarrow>
          (case convertToError e h' of
             (Returns err, h'') \<Rightarrow> failure err h''
           | (Throws x, h'') \<Rightarrow> (Throws x, h'')))"
  by (simp add: runCatching_def js_defs success_eq failure_eq split: prod.splits outcome.splits)

lemma runAsyncCatching_eq:
  "runAsyncCatching f args h =
     (case js_bind (f args) await h of
        (Returns v, h') \<Rightarrow>
          if instanceof_Result h' v then (Fulfilled v, h') else async (success v) h'
      | (Throws e, h') \<Rightarrow>
          (case convertToError e h' of
             (Returns err, h'') \<Rightarrow> async (failure err) h''
           | (Throws x, h'') \<Rightarrow> (Rejected x, h'')))"
  by (simp add: runAsyncCatching_def async_def js_defs success_eq failure_eq
      split: prod.splits outcome.splits)

lemma recover_eq:
  "recover a t h =
     (if error_of h a \<noteq> Undefined then runCatching (\<lambda>args. t (error_of h a)) [] h
      else (Returns (Ref a), h))"
  by (simp add: recover_def isFailure_eq runCatching_eq get_error_def js_defs)

subsection \<open>The faults of the normaliser and of the wrappers\<close>




lemma convertToError_throws_iff:
  "convertToError e h = (Throws x, h') \<longleftrightarrow>
     \<not> instanceof_Error h e \<and> getErrorMessage e h = (Throws x, h')"
  by (auto simp: convertToError_eq split: prod.splits outcome.splits)

lemma convertToError_raises_iff:
  "raises (convertToError e) h \<longleftrightarrow> \<not> instanceof_Error h e \<and> raises (getErrorMessage e) h"
  by (simp add: raises_def convertToError_throws_iff)

lemma getErrorMessage_throws_iff:
  "getErrorMessage e h = (Throws x, h') \<longleftrightarrow>
     e \<noteq> Undefined \<and> e \<noteq> Null \<and> (\<forall>s. e \<noteq> Str s) \<and> \<not> instanceof_Error h e \<and>
     JSON_stringify e h = (Throws x, h')"
  by (cases e) (auto simp: getErrorMessage_def js_defs)

lemma getErrorMessage_raises_stringify:
  "raises (getErrorMessage e) h \<longleftrightarrow>
     e \<noteq> Undefined \<and> e \<noteq> Null \<and> (\<forall>s. e \<noteq> Str s) \<and> \<not> instanceof_Error h e \<and>
     raises (JSON_stringify e) h"
  by (auto simp: raises_def getErrorMessage_throws_iff)

lemma convertToError_raises_stringify:
  "raises (convertToError e) h \<longleftrightarrow>
     e \<noteq> Undefined \<and> e \<noteq> Null \<and> (\<forall>s. e \<noteq> Str s) \<and> \<not> instanceof_Error h e \<and>
     raises (JSON_stringify e) h"
  by (auto simp: convertToError_raises_iff getErrorMessage_raises_stringify)

lemma runCatching_raises_iff:
  "raises (runCatching f args) h \<longleftrightarrow>
     (\<exists>e h'. f args h = (Throws e, h') \<and> raises (convertToError e) h')"
  by (auto simp: raises_def runCatching_eq success_eq failure_eq
      split: prod.splits outcome.splits if_splits)

lemma onSuccess_eq:
  "onSuccess a f h =
     (if error_of h a = Undefined
      then (case f (value_of h a) h of
              (Returns u, h') \<Rightarrow> (Returns (Ref a), h')
            | (Throws x, h') \<Rightarrow> (Throws x, h'))
      else (Returns (Ref a), h))"
  by (simp add: onSuccess_def isSuccess_eq get_value_def js_defs split: prod.splits outcome.splits)

lemma onFailure_eq:
  "onFailure a f h =
     (if error_of h a \<noteq> Undefined
      then (case f (error_of h a) h of
              (Returns u, h') \<Rightarrow> (Returns (Ref a), h')
            | (Throws x, h') \<Rightarrow> (Throws x, h'))
      else (Returns (Ref a), h))"
  by (simp add: onFailure_def isFailure_eq get_error_def js_defs split: prod.splits outcome.splits)

lemma recover_raises_iff:
  "raises (recover a t) h \<longleftrightarrow>
     error_of h a \<noteq> Undefined \<and>
     (\<exists>e h'. t (error_of h a) h = (Throws e, h') \<and> raises (convertToError e) h')"
  by (simp add: recover_eq raises_def runCatching_raises_iff [unfolded raises_def])

lemma runAsyncCatching_rejects_iff:
  "rejects (runAsyncCatching f args) h \<longleftrightarrow>
     (\<exists>e h'. js_bind (f args) await h = (Throws e, h') \<and> raises (convertToError e) h')"
  by (auto simp: rejects_def raises_def runAsyncCatching_eq async_def success_eq failure_eq
      split: prod.splits outcome.splits if_splits)

lemma recoverAsync_eq:
  "recoverAsync a t h =
     (if error_of h a \<noteq> Undefined then runAsyncCatching (\<lambda>args. t (error_of h a)) [] h
      else (Fulfilled (Ref a), h))"
  by (auto simp: recoverAsync_def isFailure_eq async_def await_def runAsyncCatching_eq
      get_error_def js_defs split: prod.splits outcome.splits settled.splits)

lemma recoverAsync_rejects_iff:
  "rejects (recoverAsync a t) h \<longleftrightarrow>
     error_of h a \<noteq> Undefined \<and>
     (\<exists>e h'. js_bind (t (error_of h a)) await h = (Throws e, h') \<and>
        raises (convertToError e) h')"
  by (simp add: recoverAsync_eq rejects_def
      runAsyncCatching_rejects_iff [unfolded rejects_def])

subsection \<open>The message of a value\<close>



lemma index_properties_keys:
  "(i, k, v) \<in> set (index_properties ps) \<Longrightarrow> array_index k = Some i \<and> (k, v) \<in> set ps"
  by (induction ps) (auto simp: index_properties_def List.map_filter_simps split: option.splits)















subsection \<open>The storage wrapper\<close>

lemma DynamoDB_get_never_empty:
  "fst (DynamoDB_get send tableName k s) \<noteq> Fulfilled (Some [])"
  by (auto simp: DynamoDB_get_def split: prod.splits settled.splits option.splits)

section \<open>The repository's tests, run on the model\<close>

text \<open>
  The cases of \<open>errorUtils.spec.ts\<close>, \<open>result.spec.ts\<close> and \<open>DynamoDB.spec.ts\<close> that
  fix an output, with the values they use laid out on a heap.
\<close>

lemmas message_eval = getErrorMessage_def instanceof_Error_def message_of_def JSON_stringify_eq
  ser_error_message_def js_defs ser_eval

lemma test_getErrorMessage_Error:
  "getErrorMessage (Ref 0) [ErrorObj ''Test error message'' []] =
     (Returns (Some ''Test error message''), [ErrorObj ''Test error message'' []])"
  by (simp add: message_eval)

lemma test_getErrorMessage_string:
  "getErrorMessage (Str ''Test string'') [] = (Returns (Some ''Test string''), [])"
  by (simp add: message_eval)

lemma test_getErrorMessage_null_undefined:
  "getErrorMessage Null [] = (Returns (Some ''null''), [])"
  "getErrorMessage Undefined [] = (Returns (Some ''undefined''), [])"
  by (simp_all add: message_eval)

lemma test_getErrorMessage_numbers:
  "getErrorMessage (Num (Integer 42)) [] = (Returns (Some ''42''), [])"
  "getErrorMessage (Num (Integer 0)) [] = (Returns (Some ''0''), [])"
  "getErrorMessage (Num NaN) [] = (Returns (Some ''null''), [])"
  by (simp_all add: message_eval)

lemma test_getErrorMessage_booleans:
  "getErrorMessage (Bool True) [] = (Returns (Some ''true''), [])"
  "getErrorMessage (Bool False) [] = (Returns (Some ''false''), [])"
  by (simp_all add: message_eval)

lemma test_getErrorMessage_object:
  "getErrorMessage (Ref 0) [PlainObj [(''key'', Str ''value'')]] =
     (Returns (Some ''{\"key\":\"value\"}''), [PlainObj [(''key'', Str ''value'')]])"
  by (simp add: message_eval)

lemma test_getErrorMessage_arrays:
  "getErrorMessage (Ref 0) [ArrayObj [Num (Integer 1), Num (Integer 2), Num (Integer 3)]] =
     (Returns (Some ''[1,2,3]''), [ArrayObj [Num (Integer 1), Num (Integer 2), Num (Integer 3)]])"
  "getErrorMessage (Ref 0) [ArrayObj []] = (Returns (Some ''[]''), [ArrayObj []])"
  by (simp_all add: message_eval)

lemma test_getErrorMessage_complex_object:
  "getErrorMessage (Ref 0)
     [PlainObj [(''a'', Num (Integer 1)), (''b'', Str ''string''), (''c'', Ref 1), (''d'', Ref 2)],
      PlainObj [(''nested'', Bool True)],
      ArrayObj [Num (Integer 1), Num (Integer 2), Num (Integer 3)]] =
     (Returns (Some ''{\"a\":1,\"b\":\"string\",\"c\":{\"nested\":true},\"d\":[1,2,3]}''),
      [PlainObj [(''a'', Num (Integer 1)), (''b'', Str ''string''), (''c'', Ref 1), (''d'', Ref 2)],
       PlainObj [(''nested'', Bool True)],
       ArrayObj [Num (Integer 1), Num (Integer 2), Num (Integer 3)]])"
  by (simp add: message_eval)

lemma test_getErrorMessage_circular:
  "raises (getErrorMessage (Ref 0)) [PlainObj [(''a'', Num (Integer 1)), (''self'', Ref 0)]]"
  by (simp add: raises_def message_eval)

lemma test_convertToError:
  "convertToError (Ref 0) [ErrorObj ''Test error'' []] = (Returns (Ref 0), [ErrorObj ''Test error'' []])"
  "convertToError (Str ''Something went wrong'') [] =
     (Returns (Ref 0), [ErrorObj ''Something went wrong'' []])"
  "convertToError (Num (Integer 404)) [] = (Returns (Ref 0), [ErrorObj ''404'' []])"
  "convertToError (Bool True) [] = (Returns (Ref 0), [ErrorObj ''true'' []])"
  "convertToError (Ref 0) [PlainObj [(''code'', Str ''ERR_INVALID_DATA'')]] =
     (Returns (Ref 1),
      [PlainObj [(''code'', Str ''ERR_INVALID_DATA'')], ErrorObj ''{\"code\":\"ERR_INVALID_DATA\"}'' []])"
  "convertToError Null [] = (Returns (Ref 0), [ErrorObj ''null'' []])"
  "convertToError Undefined [] = (Returns (Ref 0), [ErrorObj ''undefined'' []])"
  by (simp_all add: convertToError_eq message_eval)

lemma test_runCatching:
  "runCatching (returning (Num (Integer 42))) [] [] =
     (Returns (Ref 0), [ResultObj (Num (Integer 42)) Undefined])"
  "runCatching (throwing_new_Error ''Test error'') [] [] =
     (Returns (Ref 1), [ErrorObj ''Test error'' [], ResultObj Undefined (Ref 0)])"
  "runCatching (throwing (Str ''string error'')) [] [] =
     (Returns (Ref 1), [ErrorObj ''string error'' [], ResultObj Undefined (Ref 0)])"
  "runCatching (returning (Ref 0)) [] [ResultObj (Num (Integer 42)) Undefined] =
     (Returns (Ref 0), [ResultObj (Num (Integer 42)) Undefined])"
  by (simp_all add: runCatching_eq returning_def throwing_def throwing_new_Error_def new_Error_def
      instanceof_Result_def success_eq failure_eq convertToError_eq message_eval)

lemma test_runAsyncCatching:
  "runAsyncCatching (async_fn (returning (Num (Integer 42)))) [] [] =
     (Fulfilled (Ref 0), [ResultObj (Num (Integer 42)) Undefined])"
  "runAsyncCatching (async_fn (throwing_new_Error ''Test error'')) [] [] =
     (Fulfilled (Ref 1), [ErrorObj ''Test error'' [], ResultObj Undefined (Ref 0)])"
  "runAsyncCatching (async_fn (throwing (Str ''string error''))) [] [] =
     (Fulfilled (Ref 1), [ErrorObj ''string error'' [], ResultObj Undefined (Ref 0)])"
  "runAsyncCatching (async_fn (returning (Ref 0))) [] [ResultObj (Num (Integer 42)) Undefined] =
     (Fulfilled (Ref 0), [ResultObj (Num (Integer 42)) Undefined])"
  by (simp_all add: runAsyncCatching_eq async_fn_def async_def await_def returning_def
      throwing_def throwing_new_Error_def new_Error_def instanceof_Result_def success_eq
      failure_eq convertToError_eq message_eval)

lemma test_recover:
  "recover 0 (returning (Num (Integer 0))) [ResultObj (Num (Integer 42)) Undefined] =
     (Returns (Ref 0), [ResultObj (Num (Integer 42)) Undefined])"
  "recover 1 (returning (Num (Integer 0)))
     [ErrorObj ''Something went wrong'' [], ResultObj Undefined (Ref 0)] =
     (Returns (Ref 2),
      [ErrorObj ''Something went wrong'' [], ResultObj Undefined (Ref 0),
       ResultObj (Num (Integer 0)) Undefined])"
  by (simp_all add: recover_eq error_of_def runCatching_eq returning_def instanceof_Result_def
      success_eq lookup_def js_defs)

lemma test_DynamoDB_put_ttl:
  "DynamoDB_put table_send ''test-table'' 1234567890000 ''testKey'' ''testValue''
     (Some \<lparr>expirationTtl = Some 3600\<rparr>) (Map.empty, []) =
     (Fulfilled (),
      ([(''test-table'', ''testKey'') \<mapsto>
          \<lparr>item_key = ''testKey'', item_value = ''testValue'', expiresAt = Some 1234571490\<rparr>],
       []))"
  by (simp add: DynamoDB_put_def table_send_def Let_def)

section \<open>The claims\<close>

subsection \<open>C1: the exclusivity of value and error\<close>

text \<open>
  C1, as stated, fails twice. \<open>success(undefined)\<close>, the result of wrapping a function
  that returns nothing, has neither field populated. And the constructor, given the
  populated value \<open>0\<close> together with an error, does not throw: it builds an instance
  with both fields populated. (The constructor is private, and \<open>success\<close> and \<open>failure\<close>
  never pass both.)
\<close>

theorem exclusivity_counterexample:
  "success Undefined [] = (Returns (Ref 0), [ResultObj Undefined Undefined]) \<and>
   \<not> has_value [ResultObj Undefined Undefined] 0 \<and>
   \<not> has_error [ResultObj Undefined Undefined] 0 \<and>
   Result_new (Num (Integer 0)) (Ref 0) [ErrorObj ''x'' []] =
     (Returns (Ref 1), [ErrorObj ''x'' [], ResultObj (Num (Integer 0)) (Ref 0)]) \<and>
   has_value [ErrorObj ''x'' [], ResultObj (Num (Integer 0)) (Ref 0)] 1 \<and>
   has_error [ErrorObj ''x'' [], ResultObj (Num (Integer 0)) (Ref 0)] 1"
  by (simp add: success_eq Result_new_def js_defs Let_def has_value_def has_error_def
      value_of_def error_of_def lookup_def)

text \<open>
  C1, amended. A \<open>Result\<close> built by \<open>success(v)\<close> holds \<open>v\<close> and no error, is a success
  and not a failure, never has both fields populated, and has exactly one populated
  unless \<open>v\<close> is \<open>undefined\<close>; a \<open>Result\<close> built by \<open>failure(e)\<close> from an \<open>Error\<close>
  instance \<open>e\<close> holds \<open>e\<close> itself and no value, is a failure and not a success, and has
  exactly one field populated; the constructor throws a new \<open>Error\<close> when the value and
  the error are both truthy.
\<close>

theorem Result_invariant:
  "(\<exists>a h'. success v h = (Returns (Ref a), h') \<and>
      value_of h' a = v \<and> error_of h' a = Undefined \<and>
      isSuccess a h' = (Returns True, h') \<and> isFailure a h' = (Returns False, h') \<and>
      \<not> (has_value h' a \<and> has_error h' a) \<and>
      (exclusive h' a \<longleftrightarrow> v \<noteq> Undefined)) \<and>
   (instanceof_Error h e \<longrightarrow>
      (\<exists>a h'. failure e h = (Returns (Ref a), h') \<and>
         value_of h' a = Undefined \<and> error_of h' a = e \<and>
         isSuccess a h' = (Returns False, h') \<and> isFailure a h' = (Returns True, h') \<and>
         exclusive h' a)) \<and>
   (truthy v \<and> truthy e \<longrightarrow>
      (\<exists>x h'. Result_new v e h = (Throws x, h') \<and> instanceof_Error h' x \<and>
         message_of h' x = ''Result cannot be both success and failure''))"
proof (intro conjI impI)
  show "\<exists>a h'. success v h = (Returns (Ref a), h') \<and>
      value_of h' a = v \<and> error_of h' a = Undefined \<and>
      isSuccess a h' = (Returns True, h') \<and> isFailure a h' = (Returns False, h') \<and>
      \<not> (has_value h' a \<and> has_error h' a) \<and>
      (exclusive h' a \<longleftrightarrow> v \<noteq> Undefined)"
    by (simp add: success_eq value_of_new error_of_new isSuccess_eq isFailure_eq
        has_value_def has_error_def exclusive_def)
next
  assume "instanceof_Error h e"
  then have "e \<noteq> Undefined" by (rule instanceof_Error_not_Undefined)
  then show "\<exists>a h'. failure e h = (Returns (Ref a), h') \<and>
         value_of h' a = Undefined \<and> error_of h' a = e \<and>
         isSuccess a h' = (Returns False, h') \<and> isFailure a h' = (Returns True, h') \<and>
         exclusive h' a"
    by (simp add: failure_eq value_of_new error_of_new isSuccess_eq isFailure_eq
        has_value_def has_error_def exclusive_def)
next
  assume "truthy v \<and> truthy e"
  then have "Result_new v e h =
     (Throws (Ref (Suc (length h))),
      h @ [ResultObj v e, ErrorObj ''Result cannot be both success and failure'' []])"
    by (simp add: Result_new_both)
  then show "\<exists>x h'. Result_new v e h = (Throws x, h') \<and> instanceof_Error h' x \<and>
         message_of h' x = ''Result cannot be both success and failure''"
    by (simp add: instanceof_Error_def message_of_def lookup_def nth_append)
qed

theorem Result_invariant_witness:
  "instanceof_Error [ErrorObj ''boom'' []] (Ref 0) \<and>
   truthy (Num (Integer 42)) \<and> truthy (Ref 0) \<and>
   (\<exists>a h'. success (Num (Integer 42)) [ErrorObj ''boom'' []] = (Returns (Ref a), h') \<and>
      exclusive h' a) \<and>
   (\<exists>a h'. failure (Ref 0) [ErrorObj ''boom'' []] = (Returns (Ref a), h') \<and>
      error_of h' a = Ref 0 \<and> exclusive h' a) \<and>
   (\<exists>x h'. Result_new (Num (Integer 42)) (Ref 0) [ErrorObj ''boom'' []] = (Throws x, h') \<and>
      message_of h' x = ''Result cannot be both success and failure'')"
proof -
  have e: "instanceof_Error [ErrorObj ''boom'' []] (Ref 0)"
    by (simp add: instanceof_Error_def lookup_def)
  have t: "truthy (Num (Integer 42)) \<and> truthy (Ref 0)"
    by simp
  from Result_invariant [of "Num (Integer 42)" "[ErrorObj ''boom'' []]" "Ref 0"] e t
  show ?thesis by blast
qed

subsection \<open>C2: runCatching\<close>




subsection \<open>C3: which operations raise\<close>

text \<open>
  C3, as stated, fails. On the heap that holds an \<open>Error\<close>, a failure around it, a
  success around \<open>42\<close> and an object that is its own \<open>self\<close>, with the callback
  \<open>(x) => { throw x }\<close>: \<open>getOrElse\<close> and \<open>onFailure\<close> on the failure and \<open>onSuccess\<close>
  on the success let the callback's fault through, and \<open>recover\<close> with a callback that
  throws the circular object throws the TypeError of the normalisation.
\<close>

theorem callback_faults_escape_counterexample:
  "getOrElse 1 js_throw
     [ErrorObj ''boom'' [], ResultObj Undefined (Ref 0), ResultObj (Num (Integer 42)) Undefined,
      PlainObj [(''self'', Ref 3)]] =
     (Throws (Ref 0),
      [ErrorObj ''boom'' [], ResultObj Undefined (Ref 0), ResultObj (Num (Integer 42)) Undefined,
      PlainObj [(''self'', Ref 3)]]) \<and>
   onFailure 1 js_throw
     [ErrorObj ''boom'' [], ResultObj Undefined (Ref 0), ResultObj (Num (Integer 42)) Undefined,
      PlainObj [(''self'', Ref 3)]] =
     (Throws (Ref 0),
      [ErrorObj ''boom'' [], ResultObj Undefined (Ref 0), ResultObj (Num (Integer 42)) Undefined,
      PlainObj [(''self'', Ref 3)]]) \<and>
   onSuccess 2 js_throw
     [ErrorObj ''boom'' [], ResultObj Undefined (Ref 0), ResultObj (Num (Integer 42)) Undefined,
      PlainObj [(''self'', Ref 3)]] =
     (Throws (Num (Integer 42)),
      [ErrorObj ''boom'' [], ResultObj Undefined (Ref 0), ResultObj (Num (Integer 42)) Undefined,
      PlainObj [(''self'', Ref 3)]]) \<and>
   recover 1 (throwing (Ref 3))
     [ErrorObj ''boom'' [], ResultObj Undefined (Ref 0), ResultObj (Num (Integer 42)) Undefined,
      PlainObj [(''self'', Ref 3)]] =
     (Throws (Ref 4),
      [ErrorObj ''boom'' [], ResultObj Undefined (Ref 0), ResultObj (Num (Integer 42)) Undefined,
       PlainObj [(''self'', Ref 3)], ErrorObj ''Converting circular structure to JSON'' []])"
  by (simp add: getOrElse_eq onFailure_eq onSuccess_eq recover_eq error_of_def value_of_def
      runCatching_eq throwing_def js_defs convertToError_eq instanceof_Error_def
      getErrorMessage_def JSON_stringify_eq ser_error_message_def ser_eval)

text \<open>
  C3, amended. \<open>isSuccess\<close>, \<open>isFailure\<close> and \<open>getOrDefault\<close> never raise.
  \<open>getOrElse\<close>, \<open>onSuccess\<close> and \<open>onFailure\<close> call the callback unguarded: they raise
  exactly when they invoke it and it raises, with its fault. \<open>runCatching\<close>, \<open>recover\<close>,
  \<open>runAsyncCatching\<close> and \<open>recoverAsync\<close> capture the callback's fault and raise (reject)
  exactly when \<open>convertToError\<close> raises on it, that is, when the thrown value is none
  of \<open>undefined\<close>, \<open>null\<close>, a string and an \<open>Error\<close> instance, and \<open>JSON.stringify\<close>
  raises on it, as it does on a circular object. \<open>getOrThrow\<close> raises exactly on a
  failure.
\<close>

theorem faults_that_escape:
  "\<not> raises (isSuccess a) h \<and> \<not> raises (isFailure a) h \<and> \<not> raises (getOrDefault a d) h \<and>
   getOrElse a t h =
     (if error_of h a = Undefined then (Returns (value_of h a), h) else t (error_of h a) h) \<and>
   onSuccess a f h =
     (if error_of h a = Undefined
      then (case f (value_of h a) h of
              (Returns u, h') \<Rightarrow> (Returns (Ref a), h')
            | (Throws x, h') \<Rightarrow> (Throws x, h'))
      else (Returns (Ref a), h)) \<and>
   onFailure a f h =
     (if error_of h a \<noteq> Undefined
      then (case f (error_of h a) h of
              (Returns u, h') \<Rightarrow> (Returns (Ref a), h')
            | (Throws x, h') \<Rightarrow> (Throws x, h'))
      else (Returns (Ref a), h)) \<and>
   (raises (runCatching g args) h \<longleftrightarrow>
      (\<exists>e h'. g args h = (Throws e, h') \<and> raises (convertToError e) h')) \<and>
   (raises (recover a t) h \<longleftrightarrow>
      error_of h a \<noteq> Undefined \<and>
      (\<exists>e h'. t (error_of h a) h = (Throws e, h') \<and> raises (convertToError e) h')) \<and>
   (rejects (runAsyncCatching p args) h \<longleftrightarrow>
      (\<exists>e h'. js_bind (p args) await h = (Throws e, h') \<and> raises (convertToError e) h')) \<and>
   (rejects (recoverAsync a q) h \<longleftrightarrow>
      error_of h a \<noteq> Undefined \<and>
      (\<exists>e h'. js_bind (q (error_of h a)) await h = (Throws e, h') \<and>
         raises (convertToError e) h')) \<and>
   (raises (convertToError e) h \<longleftrightarrow>
      e \<noteq> Undefined \<and> e \<noteq> Null \<and> (\<forall>s. e \<noteq> Str s) \<and> \<not> instanceof_Error h e \<and>
      raises (JSON_stringify e) h) \<and>
   (raises (getOrThrow a) h \<longleftrightarrow> error_of h a \<noteq> Undefined)"
proof -
  have 1: "\<not> raises (isSuccess a) h \<and> \<not> raises (isFailure a) h \<and> \<not> raises (getOrDefault a d) h"
    by (simp add: raises_def isSuccess_eq isFailure_eq getOrDefault_eq)
  have 2: "raises (convertToError e) h \<longleftrightarrow>
      e \<noteq> Undefined \<and> e \<noteq> Null \<and> (\<forall>s. e \<noteq> Str s) \<and> \<not> instanceof_Error h e \<and>
      raises (JSON_stringify e) h"
    by (rule convertToError_raises_stringify)
  have 3: "raises (getOrThrow a) h \<longleftrightarrow> error_of h a \<noteq> Undefined"
    by (simp add: raises_def getOrThrow_eq)
  from 1 2 3 show ?thesis
    by (simp only: getOrElse_eq onSuccess_eq onFailure_eq runCatching_raises_iff
        recover_raises_iff runAsyncCatching_rejects_iff recoverAsync_rejects_iff simp_thms)
qed

theorem faults_that_escape_witness:
  "raises (getOrElse 1 js_throw) [ErrorObj ''boom'' [], ResultObj Undefined (Ref 0)] \<and>
   raises (getOrThrow 1) [ErrorObj ''boom'' [], ResultObj Undefined (Ref 0)] \<and>
   \<not> raises (recover 1 js_throw) [ErrorObj ''boom'' [], ResultObj Undefined (Ref 0)] \<and>
   raises (convertToError (BigInt 1)) [ErrorObj ''boom'' [], ResultObj Undefined (Ref 0)]"
proof -
  let ?h = "[ErrorObj ''boom'' [], ResultObj Undefined (Ref 0)]"
  have e: "error_of ?h 1 = Ref 0"
    by (simp add: error_of_def lookup_def)
  have t: "js_throw (Ref 0) ?h = (Throws (Ref 0), ?h)"
    by (simp add: js_throw_def)
  have i: "instanceof_Error ?h (Ref 0)" "\<not> instanceof_Error ?h (BigInt 1)"
    by (simp_all add: instanceof_Error_def lookup_def)
  have b: "raises (JSON_stringify (BigInt 1)) ?h"
    by (simp add: raises_def JSON_stringify_eq)
  have c: "\<not> raises (convertToError (Ref 0)) ?h"
    using i by (simp add: raises_def convertToError_eq)
  note T = faults_that_escape [where a = 1 and h = ?h and t = js_throw and e = "BigInt 1"
      and d = Undefined and f = js_throw and g = "throwing Undefined" and args = "[]"
      and p = "async_fn (throwing Undefined)" and q = "async_fn (throwing Undefined)"]
  have "getOrElse 1 js_throw ?h =
      (if error_of ?h 1 = Undefined then (Returns (value_of ?h 1), ?h)
       else js_throw (error_of ?h 1) ?h)"
    using T by (elim conjE)
  with e have 1: "raises (getOrElse 1 js_throw) ?h"
    by (simp add: raises_def js_throw_def)
  have "raises (getOrThrow 1) ?h \<longleftrightarrow> error_of ?h 1 \<noteq> Undefined"
    using T by (elim conjE)
  with e have 2: "raises (getOrThrow 1) ?h" by simp
  have "raises (recover 1 js_throw) ?h \<longleftrightarrow>
      error_of ?h 1 \<noteq> Undefined \<and>
      (\<exists>e h'. (js_throw :: jsval \<Rightarrow> jsval js) (error_of ?h 1) ?h = (Throws e, h') \<and>
         raises (convertToError e) h')"
    using T by (elim conjE)
  with e c have 3: "\<not> raises (recover 1 js_throw) ?h" by (simp add: js_throw_def)
  have "raises (convertToError (BigInt 1)) ?h \<longleftrightarrow>
      BigInt 1 \<noteq> Undefined \<and> BigInt 1 \<noteq> Null \<and> (\<forall>s. BigInt 1 \<noteq> Str s) \<and>
      \<not> instanceof_Error ?h (BigInt 1) \<and> raises (JSON_stringify (BigInt 1)) ?h"
    using T by (elim conjE)
  with i b have 4: "raises (convertToError (BigInt 1)) ?h" by simp
  from 1 2 3 4 show ?thesis by simp
qed

subsection \<open>C4: runAsyncCatching\<close>




subsection \<open>C5: recover\<close>




subsection \<open>C6: getOrThrow\<close>

text \<open>
  C6. For every value \<open>v\<close>, \<open>getOrThrow()\<close> on \<open>success(v)\<close> returns \<open>v\<close>; for every
  error \<open>e\<close> (an \<open>Error\<close> instance), \<open>getOrThrow()\<close> on \<open>failure(e)\<close> throws \<open>e\<close> itself:
  the thrown value is the reference that was passed in, and the heap is the one
  \<open>failure\<close> left, in which the object of \<open>e\<close> is as it was. The same holds for a
  success or a failure met on any later heap: \<open>getOrThrow\<close> returns the value field, or
  throws the reference in the error field.
\<close>

theorem getOrThrow_success_failure:
  "success v h = (Returns (Ref (length h)), h @ [ResultObj v Undefined]) \<and>
   getOrThrow (length h) (h @ [ResultObj v Undefined]) = (Returns v, h @ [ResultObj v Undefined]) \<and>
   (instanceof_Error h e \<longrightarrow>
      failure e h = (Returns (Ref (length h)), h @ [ResultObj Undefined e]) \<and>
      getOrThrow (length h) (h @ [ResultObj Undefined e]) = (Throws e, h @ [ResultObj Undefined e])) \<and>
   (lookup h a = Some (ResultObj v' Undefined) \<longrightarrow> getOrThrow a h = (Returns v', h)) \<and>
   (lookup h a = Some (ResultObj v' e') \<and> e' \<noteq> Undefined \<longrightarrow> getOrThrow a h = (Throws e', h))"
proof -
  have new: "getOrThrow (length h) (h @ [ResultObj v Undefined]) =
        (Returns v, h @ [ResultObj v Undefined])"
    "e \<noteq> Undefined \<Longrightarrow>
     getOrThrow (length h) (h @ [ResultObj Undefined e]) = (Throws e, h @ [ResultObj Undefined e])"
    by (simp_all add: getOrThrow_eq value_of_new error_of_new)
  have old: "lookup h a = Some (ResultObj v' Undefined) \<longrightarrow> getOrThrow a h = (Returns v', h)"
    "lookup h a = Some (ResultObj v' e') \<and> e' \<noteq> Undefined \<longrightarrow> getOrThrow a h = (Throws e', h)"
    by (simp_all add: getOrThrow_eq value_of_def error_of_def)
  from new old show ?thesis
    by (simp add: success_eq failure_eq instanceof_Error_not_Undefined)
qed

theorem getOrThrow_success_failure_witness:
  "instanceof_Error [ErrorObj ''Something went wrong'' []] (Ref 0) \<and>
   failure (Ref 0) [ErrorObj ''Something went wrong'' []] =
     (Returns (Ref 1), [ErrorObj ''Something went wrong'' [], ResultObj Undefined (Ref 0)]) \<and>
   getOrThrow 1 [ErrorObj ''Something went wrong'' [], ResultObj Undefined (Ref 0)] =
     (Throws (Ref 0), [ErrorObj ''Something went wrong'' [], ResultObj Undefined (Ref 0)]) \<and>
   getOrThrow 0 [ResultObj (Num (Integer 42)) Undefined] =
     (Returns (Num (Integer 42)), [ResultObj (Num (Integer 42)) Undefined])"
proof -
  let ?h = "[ErrorObj ''Something went wrong'' []]"
  let ?h1 = "[ErrorObj ''Something went wrong'' [], ResultObj Undefined (Ref 0)]"
  let ?h2 = "[ResultObj (Num (Integer 42)) Undefined]"
  have i: "instanceof_Error ?h (Ref 0)"
    by (simp add: instanceof_Error_def lookup_def)
  have l1: "lookup ?h1 1 = Some (ResultObj Undefined (Ref 0)) \<and> Ref 0 \<noteq> Undefined"
    by (simp add: lookup_def)
  have l2: "lookup ?h2 0 = Some (ResultObj (Num (Integer 42)) Undefined)"
    by (simp add: lookup_def)
  from i getOrThrow_success_failure [where h = ?h and e = "Ref 0"]
  have "failure (Ref 0) ?h = (Returns (Ref (length ?h)), ?h @ [ResultObj Undefined (Ref 0)])"
    by blast
  then have a: "failure (Ref 0) ?h = (Returns (Ref 1), ?h1)" by simp
  from l1 getOrThrow_success_failure [where h = ?h1 and a = 1 and v' = Undefined and e' = "Ref 0"]
  have b: "getOrThrow 1 ?h1 = (Throws (Ref 0), ?h1)" by blast
  from l2 getOrThrow_success_failure [where h = ?h2 and a = 0 and v' = "Num (Integer 42)"]
  have c: "getOrThrow 0 ?h2 = (Returns (Num (Integer 42)), ?h2)" by blast
  from i a b c show ?thesis by simp
qed

subsection \<open>C7: getErrorMessage\<close>




subsection \<open>C8: the failure paths of the normaliser\<close>




subsection \<open>C9: convertToError\<close>




subsection \<open>C10: DynamoDB.get and the empty string\<close>

text \<open>
  C10. \<open>get\<close> resolves to \<open>null\<close> when the service returns no item and also when it
  returns an item whose value is the empty string; it resolves to the value when the
  value is not empty; it never resolves to the empty string. With a table in the
  service's place: after \<open>put(key, '')\<close> the table holds an item with the empty value
  under the key, and \<open>get(key)\<close> resolves to \<open>null\<close>.
\<close>

theorem DynamoDB_get_null:
  "(send (GetCommand tableName k) c = (Fulfilled \<lparr>Item = None\<rparr>, c') \<longrightarrow>
      DynamoDB_get send tableName k (c, con) = (Fulfilled None, (c', con))) \<and>
   (send (GetCommand tableName k) c = (Fulfilled \<lparr>Item = Some item\<rparr>, c') \<and> item_value item = [] \<longrightarrow>
      DynamoDB_get send tableName k (c, con) = (Fulfilled None, (c', con))) \<and>
   (send (GetCommand tableName k) c = (Fulfilled \<lparr>Item = Some item\<rparr>, c') \<and> item_value item \<noteq> [] \<longrightarrow>
      DynamoDB_get send tableName k (c, con) = (Fulfilled (Some (item_value item)), (c', con))) \<and>
   fst (DynamoDB_get send tableName k (c, con)) \<noteq> Fulfilled (Some []) \<and>
   (\<exists>t'. DynamoDB_put table_send tableName now k [] options (t, con) = (Fulfilled (), (t', con)) \<and>
      (\<exists>stored. t' (tableName, k) = Some stored \<and> item_value stored = []) \<and>
      DynamoDB_get table_send tableName k (t', con) = (Fulfilled None, (t', con)))"
proof (intro conjI impI)
  show "fst (DynamoDB_get send tableName k (c, con)) \<noteq> Fulfilled (Some [])"
    by (rule DynamoDB_get_never_empty)
next
  show "\<exists>t'. DynamoDB_put table_send tableName now k [] options (t, con) = (Fulfilled (), (t', con)) \<and>
      (\<exists>stored. t' (tableName, k) = Some stored \<and> item_value stored = []) \<and>
      DynamoDB_get table_send tableName k (t', con) = (Fulfilled None, (t', con))"
    by (simp add: DynamoDB_put_def DynamoDB_get_def table_send_def Let_def)
qed (simp_all add: DynamoDB_get_def)

theorem DynamoDB_get_null_witness:
  "table_send (GetCommand ''test-table'' ''nonexistentKey'') Map.empty =
     (Fulfilled \<lparr>Item = None\<rparr>, Map.empty) \<and>
   DynamoDB_get table_send ''test-table'' ''nonexistentKey'' (Map.empty, []) =
     (Fulfilled None, (Map.empty, [])) \<and>
   DynamoDB_get table_send ''test-table'' ''k''
     ([(''test-table'', ''k'') \<mapsto> \<lparr>item_key = ''k'', item_value = [], expiresAt = None\<rparr>], []) =
     (Fulfilled None,
      ([(''test-table'', ''k'') \<mapsto> \<lparr>item_key = ''k'', item_value = [], expiresAt = None\<rparr>], [])) \<and>
   DynamoDB_get table_send ''test-table'' ''testKey''
     ([(''test-table'', ''testKey'') \<mapsto>
         \<lparr>item_key = ''testKey'', item_value = ''testValue'', expiresAt = None\<rparr>], []) =
     (Fulfilled (Some ''testValue''),
      ([(''test-table'', ''testKey'') \<mapsto>
          \<lparr>item_key = ''testKey'', item_value = ''testValue'', expiresAt = None\<rparr>], []))"
proof -
  let ?i0 = "\<lparr>item_key = ''k'', item_value = [], expiresAt = None\<rparr>"
  let ?t0 = "[(''test-table'', ''k'') \<mapsto> ?i0]"
  let ?i1 = "\<lparr>item_key = ''testKey'', item_value = ''testValue'', expiresAt = None\<rparr>"
  let ?t1 = "[(''test-table'', ''testKey'') \<mapsto> ?i1]"
  have 1: "table_send (GetCommand ''test-table'' ''nonexistentKey'') Map.empty =
     (Fulfilled \<lparr>Item = None\<rparr>, Map.empty)"
    by (simp add: table_send_def)
  have 2: "table_send (GetCommand ''test-table'' ''k'') ?t0 = (Fulfilled \<lparr>Item = Some ?i0\<rparr>, ?t0) \<and>
      item_value ?i0 = []"
    by (simp add: table_send_def)
  have 3: "table_send (GetCommand ''test-table'' ''testKey'') ?t1 = (Fulfilled \<lparr>Item = Some ?i1\<rparr>, ?t1) \<and>
      item_value ?i1 \<noteq> []"
    by (simp add: table_send_def)
  from 1 DynamoDB_get_null [where send = table_send and tableName = "''test-table''"
      and k = "''nonexistentKey''" and c = Map.empty and c' = Map.empty and con = "[]"]
  have a: "DynamoDB_get table_send ''test-table'' ''nonexistentKey'' (Map.empty, []) =
     (Fulfilled None, (Map.empty, []))"
    by blast
  from 2 DynamoDB_get_null [where send = table_send and tableName = "''test-table''"
      and k = "''k''" and c = ?t0 and c' = ?t0 and con = "[]" and item = ?i0]
  have b: "DynamoDB_get table_send ''test-table'' ''k'' (?t0, []) = (Fulfilled None, (?t0, []))"
    by blast
  from 3 DynamoDB_get_null [where send = table_send and tableName = "''test-table''"
      and k = "''testKey''" and c = ?t1 and c' = ?t1 and con = "[]" and item = ?i1]
  have "DynamoDB_get table_send ''test-table'' ''testKey'' (?t1, []) =
      (Fulfilled (Some (item_value ?i1)), (?t1, []))"
    by blast
  then have c: "DynamoDB_get table_send ''test-table'' ''testKey'' (?t1, []) =
      (Fulfilled (Some ''testValue''), (?t1, []))"
    by simp
  from 1 a b c show ?thesis by simp
qed


end
